theory Spec2Isabelle
  imports Complex_Main
begin

section \<open>Curved path calculation: the embedding\<close>

text \<open>
  The program is \<^verbatim>\<open>curved_path_calculation.py\<close>. Python floats are modelled as
  \<^typ>\<open>real\<close>: rounding, infinities and NaN are outside the model. The geodesic
  library (\<^verbatim>\<open>Geodesic.WGS84\<close>) is not part of the repository; it is a parameter of
  every function that calls it, a record of its two operations.

  The lists of the program start with one element and only grow, so that its reads of
  \<^verbatim>\<open>lats[-1]\<close> and \<^verbatim>\<open>phase_2_lats[0]\<close> never fail; they are \<^const>\<open>last\<close> and
  \<^const>\<open>hd\<close> here, on lists shown non-empty below.
\<close>

subsection \<open>Constants and configuration\<close>

definition LAT_B :: real where
  "LAT_B = 5002 / 100"

definition LON_B :: real where
  "LON_B = 493 / 100"

definition MAX_TURN_RATE :: real where
  "MAX_TURN_RATE = 3"

definition POINT_INTERVAL_METERS :: real where
  "POINT_INTERVAL_METERS = 300"

subsection \<open>The geodesic library\<close>

text \<open>
  \<^verbatim>\<open>geod.Inverse(lat1, lon1, lat2, lon2)\<close> returns a dictionary of which the program
  reads \<^verbatim>\<open>'s12'\<close> (the distance in metres) and \<^verbatim>\<open>'azi1'\<close> (the bearing at the first
  point); \<^verbatim>\<open>geod.Direct(lat1, lon1, azi1, s12)\<close> returns one of which it reads
  \<^verbatim>\<open>'lat2'\<close> and \<^verbatim>\<open>'lon2'\<close>.
\<close>

record inverse_result =
  s12 :: real
  azi1 :: real

record direct_result =
  lat2 :: real
  lon2 :: real

record geodesic =
  Inverse :: "real \<Rightarrow> real \<Rightarrow> real \<Rightarrow> real \<Rightarrow> inverse_result"
  Direct :: "real \<Rightarrow> real \<Rightarrow> real \<Rightarrow> real \<Rightarrow> direct_result"

subsection \<open>Python arithmetic\<close>

text \<open>
  \<^verbatim>\<open>x % y\<close> on floats takes the sign of the divisor; the program only divides by the
  literal 360. \<^verbatim>\<open>int(x)\<close> truncates towards zero.
\<close>

definition pymod :: "real \<Rightarrow> real \<Rightarrow> real" where
  "pymod x y = x - y * of_int \<lfloor>x / y\<rfloor>"

definition py_int :: "real \<Rightarrow> int" where
  "py_int x = (if 0 \<le> x then \<lfloor>x\<rfloor> else \<lceil>x\<rceil>)"

subsection \<open>calculate_path_segment\<close>

text \<open>Lines 16 to 18: the distance at the start of the segment, the step count, the step length.\<close>

definition total_distance :: "geodesic \<Rightarrow> real \<Rightarrow> real \<Rightarrow> real \<Rightarrow> real \<Rightarrow> real" where
  "total_distance geod start_lat start_lon end_lat end_lon =
     s12 (Inverse geod start_lat start_lon end_lat end_lon)"

definition n_points :: "geodesic \<Rightarrow> real \<Rightarrow> real \<Rightarrow> real \<Rightarrow> real \<Rightarrow> int" where
  "n_points geod start_lat start_lon end_lat end_lon =
     max 1 (py_int (total_distance geod start_lat start_lon end_lat end_lon / POINT_INTERVAL_METERS))"

definition step_distance :: "geodesic \<Rightarrow> real \<Rightarrow> real \<Rightarrow> real \<Rightarrow> real \<Rightarrow> real" where
  "step_distance geod start_lat start_lon end_lat end_lon =
     total_distance geod start_lat start_lon end_lat end_lon
       / (2 * of_int (n_points geod start_lat start_lon end_lat end_lon))"

text \<open>The variables the loop updates: the two lists and the running heading.\<close>

record seg_state =
  lats :: "real list"
  lons :: "real list"
  heading :: real

text \<open>Line 27: the signed difference between the bearing to the target and the running heading.\<close>

definition heading_change :: "real \<Rightarrow> real \<Rightarrow> real" where
  "heading_change target_heading h = pymod (target_heading - h + 180) 360 - 180"

text \<open>
  Lines 23 to 28: the running heading after the update of one iteration. It is the value
  that line 31 hands to \<^verbatim>\<open>geod.Direct\<close>.
\<close>

definition steer :: "geodesic \<Rightarrow> real \<Rightarrow> real \<Rightarrow> seg_state \<Rightarrow> real" where
  "steer geod end_lat end_lon s =
     (let g = Inverse geod (last (lats s)) (last (lons s)) end_lat end_lon;
          target_heading = azi1 g;
          hc = heading_change target_heading (heading s)
      in heading s + min MAX_TURN_RATE \<bar>hc\<bar> * sgn hc)"

text \<open>Lines 23 to 33: one iteration of the loop, up to the test of line 36.\<close>

definition step :: "geodesic \<Rightarrow> real \<Rightarrow> real \<Rightarrow> real \<Rightarrow> seg_state \<Rightarrow> seg_state" where
  "step geod end_lat end_lon step_len s =
     (let h = steer geod end_lat end_lon s;
          new_position = Direct geod (last (lats s)) (last (lons s)) h step_len
      in \<lparr>lats = lats s @ [lat2 new_position],
          lons = lons s @ [lon2 new_position],
          heading = h\<rparr>)"

text \<open>Line 36: the test that ends the segment early.\<close>

definition close_enough :: "real \<Rightarrow> real \<Rightarrow> bool" where
  "close_enough h end_heading = (\<bar>h - end_heading\<bar> < 1 / 10)"

text \<open>
  Lines 22 to 37: \<^verbatim>\<open>for _ in range(n_points)\<close> with its \<^verbatim>\<open>break\<close>; the first argument
  after the target counts the iterations that remain.
\<close>

fun path_loop :: "geodesic \<Rightarrow> real \<Rightarrow> real \<Rightarrow> real \<Rightarrow> real \<Rightarrow> nat \<Rightarrow> seg_state \<Rightarrow> seg_state" where
  "path_loop geod end_lat end_lon end_heading step_len 0 s = s"
| "path_loop geod end_lat end_lon end_heading step_len (Suc k) s =
     (let s' = step geod end_lat end_lon step_len s
      in if close_enough (heading s') end_heading then s'
         else path_loop geod end_lat end_lon end_heading step_len k s')"

definition segment_state ::
  "geodesic \<Rightarrow> real \<Rightarrow> real \<Rightarrow> real \<Rightarrow> real \<Rightarrow> real \<Rightarrow> real \<Rightarrow> seg_state" where
  "segment_state geod start_lat start_lon start_heading end_lat end_lon end_heading =
     path_loop geod end_lat end_lon end_heading
       (step_distance geod start_lat start_lon end_lat end_lon)
       (nat (n_points geod start_lat start_lon end_lat end_lon))
       \<lparr>lats = [start_lat], lons = [start_lon], heading = start_heading\<rparr>"

definition calculate_path_segment ::
  "geodesic \<Rightarrow> real \<Rightarrow> real \<Rightarrow> real \<Rightarrow> real \<Rightarrow> real \<Rightarrow> real \<Rightarrow> real list \<times> real list" where
  "calculate_path_segment geod start_lat start_lon start_heading end_lat end_lon end_heading =
     (let s = segment_state geod start_lat start_lon start_heading end_lat end_lon end_heading
      in (lats s, lons s))"

subsection \<open>generate_complete_path\<close>

text \<open>Lines 46 and 47.\<close>

definition phase_1 ::
  "geodesic \<Rightarrow> real \<Rightarrow> real \<Rightarrow> real \<Rightarrow> real \<Rightarrow> real \<Rightarrow> real \<Rightarrow> real list \<times> real list" where
  "phase_1 geod start_lat start_lon start_heading end_lat end_lon end_heading =
     calculate_path_segment geod start_lat start_lon start_heading end_lat end_lon end_heading"

text \<open>Lines 50 and 51.\<close>

definition phase_2 ::
  "geodesic \<Rightarrow> real \<Rightarrow> real \<Rightarrow> real \<Rightarrow> real \<Rightarrow> real \<Rightarrow> real \<Rightarrow> real list \<times> real list" where
  "phase_2 geod start_lat start_lon start_heading end_lat end_lon end_heading =
     (let (phase_1_lats, phase_1_lons) =
            phase_1 geod start_lat start_lon start_heading end_lat end_lon end_heading
      in calculate_path_segment geod end_lat end_lon (pymod (end_heading + 180) 360)
           (last phase_1_lats) (last phase_1_lons) end_heading)"

text \<open>Lines 53 and 54: the target of the second pass.\<close>

definition end_of_phase_2 ::
  "geodesic \<Rightarrow> real \<Rightarrow> real \<Rightarrow> real \<Rightarrow> real \<Rightarrow> real \<Rightarrow> real \<Rightarrow> real \<times> real" where
  "end_of_phase_2 geod start_lat start_lon start_heading end_lat end_lon end_heading =
     (let (phase_2_lats, phase_2_lons) =
            phase_2 geod start_lat start_lon start_heading end_lat end_lon end_heading;
          end_of_phase_2_lat =
            (if LAT_B = hd phase_2_lats then last phase_2_lats else hd phase_2_lats);
          end_of_phase_2_lon =
            (if LON_B = hd phase_2_lons then last phase_2_lons else hd phase_2_lons)
      in (end_of_phase_2_lat, end_of_phase_2_lon))"

text \<open>Lines 58 and 59.\<close>

definition phase_1_recalculated ::
  "geodesic \<Rightarrow> real \<Rightarrow> real \<Rightarrow> real \<Rightarrow> real \<Rightarrow> real \<Rightarrow> real \<Rightarrow> real list \<times> real list" where
  "phase_1_recalculated geod start_lat start_lon start_heading end_lat end_lon end_heading =
     (let (end_of_phase_2_lat, end_of_phase_2_lon) =
            end_of_phase_2 geod start_lat start_lon start_heading end_lat end_lon end_heading
      in calculate_path_segment geod start_lat start_lon start_heading
           end_of_phase_2_lat end_of_phase_2_lon end_heading)"

text \<open>Lines 62 and 63.\<close>

definition phase_2_recalculated ::
  "geodesic \<Rightarrow> real \<Rightarrow> real \<Rightarrow> real \<Rightarrow> real \<Rightarrow> real \<Rightarrow> real \<Rightarrow> real list \<times> real list" where
  "phase_2_recalculated geod start_lat start_lon start_heading end_lat end_lon end_heading =
     (let (phase_1_lats_recalculated, phase_1_lons_recalculated) =
            phase_1_recalculated geod start_lat start_lon start_heading end_lat end_lon end_heading
      in calculate_path_segment geod end_lat end_lon (pymod (end_heading + 180) 360)
           (last phase_1_lats_recalculated) (last phase_1_lons_recalculated) end_heading)"

text \<open>Lines 66 to 69.\<close>

definition generate_complete_path ::
  "geodesic \<Rightarrow> real \<Rightarrow> real \<Rightarrow> real \<Rightarrow> real \<Rightarrow> real \<Rightarrow> real \<Rightarrow> real list \<times> real list" where
  "generate_complete_path geod start_lat start_lon start_heading end_lat end_lon end_heading =
     (let (phase_1_lats_recalculated, phase_1_lons_recalculated) =
            phase_1_recalculated geod start_lat start_lon start_heading end_lat end_lon end_heading;
          (phase_2_lats_recalculated, phase_2_lons_recalculated) =
            phase_2_recalculated geod start_lat start_lon start_heading end_lat end_lon end_heading;
          full_lats = phase_1_lats_recalculated @ rev phase_2_lats_recalculated;
          full_lons = phase_1_lons_recalculated @ rev phase_2_lons_recalculated
      in (full_lats, full_lons))"

subsection \<open>A stand-in for the geodesic library\<close>

text \<open>
  Travel along one meridian, with a fixed number of metres to the degree of latitude:
  the distance between two points is proportional to the difference of their latitudes,
  the bearing from one to the other is 0 (north) or 180 (south), and a step moves the
  latitude north for a heading within 90 degrees of north, south for one within 90
  degrees of south. The longitude never changes. It is used for the concrete runs only.
\<close>

definition metres_per_degree :: real where
  "metres_per_degree = 111200"

definition meridian_Inverse :: "real \<Rightarrow> real \<Rightarrow> real \<Rightarrow> real \<Rightarrow> inverse_result" where
  "meridian_Inverse la1 lo1 la2 lo2 =
     \<lparr>s12 = metres_per_degree * \<bar>la2 - la1\<bar>,
      azi1 = (if la1 \<le> la2 then 0 else 180)\<rparr>"

definition meridian_Direct :: "real \<Rightarrow> real \<Rightarrow> real \<Rightarrow> real \<Rightarrow> direct_result" where
  "meridian_Direct la1 lo1 az d =
     (let m = pymod az 360
      in \<lparr>lat2 = (if m < 90 then la1 + d / metres_per_degree
                  else if 270 < m then la1 + d / metres_per_degree
                  else if 90 < m \<and> m < 270 then la1 - d / metres_per_degree
                  else la1),
          lon2 = lo1\<rparr>)"

definition meridian :: geodesic where
  "meridian = \<lparr>Inverse = meridian_Inverse, Direct = meridian_Direct\<rparr>"

section \<open>Auxiliary facts\<close>

lemma pymod_360_range: "0 \<le> pymod x 360 \<and> pymod x 360 < 360"
proof -
  have "of_int \<lfloor>x / 360\<rfloor> \<le> x / 360" and "x / 360 < of_int \<lfloor>x / 360\<rfloor> + 1"
    by linarith+
  then show ?thesis unfolding pymod_def by linarith
qed

lemma py_int_max: "max 1 (py_int x) = max 1 \<lfloor>x\<rfloor>"
  unfolding py_int_def by (auto simp: max_def)

lemma n_points_ge_1: "1 \<le> n_points geod a b c d"
  by (simp add: n_points_def)

lemma lats_step: "lats (step geod el eo d s) =
    lats s @ [lat2 (Direct geod (last (lats s)) (last (lons s)) (steer geod el eo s) d)]"
  by (simp add: step_def Let_def)

lemma lons_step: "lons (step geod el eo d s) =
    lons s @ [lon2 (Direct geod (last (lats s)) (last (lons s)) (steer geod el eo s) d)]"
  by (simp add: step_def Let_def)

lemma heading_step: "heading (step geod el eo d s) = steer geod el eo s"
  by (simp add: step_def Let_def)

lemma turn_bound: "\<bar>min MAX_TURN_RATE \<bar>hc\<bar> * sgn hc\<bar> \<le> MAX_TURN_RATE"
  by (simp add: MAX_TURN_RATE_def abs_mult min_def sgn_real_def)

lemma steer_bound: "\<bar>steer geod el eo s - heading s\<bar> \<le> MAX_TURN_RATE"
  using turn_bound by (simp add: steer_def Let_def)

lemma path_loop_lats_upper:
  "length (lats (path_loop geod el eo eh d k s)) \<le> length (lats s) + k"
proof (induction k arbitrary: s)
  case 0
  show ?case by simp
next
  case (Suc k)
  have "length (lats (path_loop geod el eo eh d k (step geod el eo d s)))
          \<le> length (lats (step geod el eo d s)) + k"
    by (rule Suc.IH)
  then show ?case by (simp add: Let_def lats_step)
qed

lemma path_loop_lats_mono:
  "length (lats s) \<le> length (lats (path_loop geod el eo eh d k s))"
proof (induction k arbitrary: s)
  case 0
  show ?case by simp
next
  case (Suc k)
  have "length (lats (step geod el eo d s))
          \<le> length (lats (path_loop geod el eo eh d k (step geod el eo d s)))"
    by (rule Suc.IH)
  then show ?case by (simp add: Let_def lats_step)
qed

lemma path_loop_lats_hd:
  "lats s \<noteq> [] \<Longrightarrow> hd (lats (path_loop geod el eo eh d k s)) = hd (lats s)"
proof (induction k arbitrary: s)
  case 0
  show ?case by simp
next
  case (Suc k)
  have ne: "lats (step geod el eo d s) \<noteq> []" by (simp add: lats_step)
  have "hd (lats (path_loop geod el eo eh d k (step geod el eo d s)))
          = hd (lats (step geod el eo d s))"
    by (rule Suc.IH [OF ne])
  with Suc.prems show ?case by (simp add: Let_def lats_step)
qed

lemma path_loop_lons_upper:
  "length (lons (path_loop geod el eo eh d k s)) \<le> length (lons s) + k"
proof (induction k arbitrary: s)
  case 0
  show ?case by simp
next
  case (Suc k)
  have "length (lons (path_loop geod el eo eh d k (step geod el eo d s)))
          \<le> length (lons (step geod el eo d s)) + k"
    by (rule Suc.IH)
  then show ?case by (simp add: Let_def lons_step)
qed

lemma path_loop_lons_mono:
  "length (lons s) \<le> length (lons (path_loop geod el eo eh d k s))"
proof (induction k arbitrary: s)
  case 0
  show ?case by simp
next
  case (Suc k)
  have "length (lons (step geod el eo d s))
          \<le> length (lons (path_loop geod el eo eh d k (step geod el eo d s)))"
    by (rule Suc.IH)
  then show ?case by (simp add: Let_def lons_step)
qed

lemma path_loop_lons_hd:
  "lons s \<noteq> [] \<Longrightarrow> hd (lons (path_loop geod el eo eh d k s)) = hd (lons s)"
proof (induction k arbitrary: s)
  case 0
  show ?case by simp
next
  case (Suc k)
  have ne: "lons (step geod el eo d s) \<noteq> []" by (simp add: lons_step)
  have "hd (lons (path_loop geod el eo eh d k (step geod el eo d s)))
          = hd (lons (step geod el eo d s))"
    by (rule Suc.IH [OF ne])
  with Suc.prems show ?case by (simp add: Let_def lons_step)
qed

lemma path_loop_first_step_lats:
  "Suc (length (lats s)) \<le> length (lats (path_loop geod el eo eh d (Suc k) s))"
  using path_loop_lats_mono [of "step geod el eo d s" geod el eo eh d k]
  by (simp add: Let_def lats_step)

lemma path_loop_first_step_lons:
  "Suc (length (lons s)) \<le> length (lons (path_loop geod el eo eh d (Suc k) s))"
  using path_loop_lons_mono [of "step geod el eo d s" geod el eo eh d k]
  by (simp add: Let_def lons_step)

lemma nat_n_points: "\<exists>k. nat (n_points geod a b c d) = Suc k"
proof -
  have "0 < nat (n_points geod a b c d)" using n_points_ge_1 [of geod a b c d] by simp
  then show ?thesis by (simp add: gr0_conv_Suc)
qed

lemma segment_lats_hd:
  "hd (fst (calculate_path_segment geod a b h c d e)) = a"
  by (simp add: calculate_path_segment_def segment_state_def Let_def path_loop_lats_hd)

lemma segment_lons_hd:
  "hd (snd (calculate_path_segment geod a b h c d e)) = b"
  by (simp add: calculate_path_segment_def segment_state_def Let_def path_loop_lons_hd)

lemma segment_lats_ge_2:
  "2 \<le> length (fst (calculate_path_segment geod a b h c d e))"
proof -
  obtain k where k: "nat (n_points geod a b c d) = Suc k" using nat_n_points by blast
  show ?thesis
    using path_loop_first_step_lats
      [of "\<lparr>lats = [a], lons = [b], heading = h\<rparr>" geod c d e "step_distance geod a b c d" k]
    by (simp add: calculate_path_segment_def segment_state_def Let_def k)
qed

lemma segment_lons_ge_2:
  "2 \<le> length (snd (calculate_path_segment geod a b h c d e))"
proof -
  obtain k where k: "nat (n_points geod a b c d) = Suc k" using nat_n_points by blast
  show ?thesis
    using path_loop_first_step_lons
      [of "\<lparr>lats = [a], lons = [b], heading = h\<rparr>" geod c d e "step_distance geod a b c d" k]
    by (simp add: calculate_path_segment_def segment_state_def Let_def k)
qed

lemma segment_lats_le:
  "length (fst (calculate_path_segment geod a b h c d e)) \<le> nat (n_points geod a b c d) + 1"
  using path_loop_lats_upper
    [of geod c d e "step_distance geod a b c d" "nat (n_points geod a b c d)"
        "\<lparr>lats = [a], lons = [b], heading = h\<rparr>"]
  by (simp add: calculate_path_segment_def segment_state_def Let_def)

lemma segment_lons_le:
  "length (snd (calculate_path_segment geod a b h c d e)) \<le> nat (n_points geod a b c d) + 1"
  using path_loop_lons_upper
    [of geod c d e "step_distance geod a b c d" "nat (n_points geod a b c d)"
        "\<lparr>lats = [a], lons = [b], heading = h\<rparr>"]
  by (simp add: calculate_path_segment_def segment_state_def Let_def)

lemma n_points_floor:
  "n_points geod a b c d = max 1 \<lfloor>s12 (Inverse geod a b c d) / POINT_INTERVAL_METERS\<rfloor>"
  by (simp only: n_points_def total_distance_def py_int_max)

lemma heading_change_range: "- 180 \<le> heading_change t h \<and> heading_change t h < 180"
  using pymod_360_range [of "t - h + 180"] by (simp add: heading_change_def)

lemma heading_change_congruent:
  "heading_change t h = (t - h) + 360 * of_int (- \<lfloor>(t - h + 180) / 360\<rfloor>)"
  by (simp add: heading_change_def pymod_def)

lemma segment_lats_nonempty: "fst (calculate_path_segment geod a b h c d e) \<noteq> []"
  using segment_lats_ge_2 [of geod a b h c d e] by auto

lemma segment_lons_nonempty: "snd (calculate_path_segment geod a b h c d e) \<noteq> []"
  using segment_lons_ge_2 [of geod a b h c d e] by auto

lemma full_lats:
  "fst (generate_complete_path geod a b h c d e) =
     fst (phase_1_recalculated geod a b h c d e) @ rev (fst (phase_2_recalculated geod a b h c d e))"
  by (simp add: generate_complete_path_def case_prod_unfold Let_def)

lemma full_lons:
  "snd (generate_complete_path geod a b h c d e) =
     snd (phase_1_recalculated geod a b h c d e) @ rev (snd (phase_2_recalculated geod a b h c d e))"
  by (simp add: generate_complete_path_def case_prod_unfold Let_def)

lemma phase_1_recalculated_segment:
  "phase_1_recalculated geod a b h c d e =
     calculate_path_segment geod a b h
       (fst (end_of_phase_2 geod a b h c d e)) (snd (end_of_phase_2 geod a b h c d e)) e"
  by (simp add: phase_1_recalculated_def case_prod_unfold Let_def)

lemma phase_2_recalculated_segment:
  "phase_2_recalculated geod a b h c d e =
     calculate_path_segment geod c d (pymod (e + 180) 360)
       (last (fst (phase_1_recalculated geod a b h c d e)))
       (last (snd (phase_1_recalculated geod a b h c d e))) e"
  by (simp add: phase_2_recalculated_def case_prod_unfold Let_def)

lemma meridian_simps:
  "Inverse meridian = meridian_Inverse" "Direct meridian = meridian_Direct"
  by (simp_all add: meridian_def)

lemma phase_2_segment:
  "phase_2 geod a b h c d e =
     calculate_path_segment geod c d (pymod (e + 180) 360)
       (last (fst (phase_1 geod a b h c d e))) (last (snd (phase_1 geod a b h c d e))) e"
  by (simp add: phase_2_def case_prod_unfold Let_def)

lemma end_of_phase_2_lat:
  "fst (end_of_phase_2 geod a b h c d e) =
     (if LAT_B = c then last (fst (phase_2 geod a b h c d e)) else c)"
  by (simp add: end_of_phase_2_def case_prod_unfold Let_def phase_2_segment segment_lats_hd)

lemma end_of_phase_2_lon:
  "snd (end_of_phase_2 geod a b h c d e) =
     (if LON_B = d then last (snd (phase_2 geod a b h c d e)) else d)"
  by (simp add: end_of_phase_2_def case_prod_unfold Let_def phase_2_segment segment_lons_hd)

lemma steer_unfold:
  "steer geod el eo s =
     heading s
     + min MAX_TURN_RATE
         \<bar>heading_change (azi1 (Inverse geod (last (lats s)) (last (lons s)) el eo)) (heading s)\<bar>
       * sgn (heading_change (azi1 (Inverse geod (last (lats s)) (last (lons s)) el eo)) (heading s))"
  by (simp add: steer_def Let_def)

lemma steer_within:
  "heading s - MAX_TURN_RATE \<le> steer geod el eo s \<and> steer geod el eo s \<le> heading s + MAX_TURN_RATE"
  using steer_bound [of geod el eo s] by (simp add: abs_le_iff)

lemma path_loop_once:
  "path_loop geod el eo eh d (Suc 0) s = step geod el eo d s"
  by (simp add: Let_def)

lemma coincident_segment:
  assumes "s12 (Inverse geod a b a b) = 0"
    and "\<forall>h. Direct geod a b h 0 = \<lparr>lat2 = a, lon2 = b\<rparr>"
  shows "calculate_path_segment geod a b h a b e = ([a, a], [b, b])"
proof -
  have n: "n_points geod a b a b = 1"
    by (simp add: n_points_def total_distance_def py_int_def assms(1))
  have d: "step_distance geod a b a b = 0"
    by (simp add: step_distance_def total_distance_def assms(1))
  have "segment_state geod a b h a b e =
          step geod a b 0 \<lparr>lats = [a], lons = [b], heading = h\<rparr>"
    by (simp only: segment_state_def n d nat_1 One_nat_def path_loop_once)
  then show ?thesis
    by (simp add: calculate_path_segment_def Let_def lats_step lons_step assms(2))
qed

lemma four_points_lats: "4 \<le> length (fst (generate_complete_path geod a b h c d e))"
  using segment_lats_ge_2 [of geod a b h "fst (end_of_phase_2 geod a b h c d e)"
          "snd (end_of_phase_2 geod a b h c d e)" e]
        segment_lats_ge_2 [of geod c d "pymod (e + 180) 360"
          "last (fst (phase_1_recalculated geod a b h c d e))"
          "last (snd (phase_1_recalculated geod a b h c d e))" e]
  by (simp add: full_lats phase_1_recalculated_segment [symmetric]
        phase_2_recalculated_segment [symmetric])

lemma four_points_lons: "4 \<le> length (snd (generate_complete_path geod a b h c d e))"
  using segment_lons_ge_2 [of geod a b h "fst (end_of_phase_2 geod a b h c d e)"
          "snd (end_of_phase_2 geod a b h c d e)" e]
        segment_lons_ge_2 [of geod c d "pymod (e + 180) 360"
          "last (fst (phase_1_recalculated geod a b h c d e))"
          "last (snd (phase_1_recalculated geod a b h c d e))" e]
  by (simp add: full_lons phase_1_recalculated_segment [symmetric]
        phase_2_recalculated_segment [symmetric])

lemma coincident_path:
  assumes "s12 (Inverse geod a b a b) = 0"
    and "\<forall>h. Direct geod a b h 0 = \<lparr>lat2 = a, lon2 = b\<rparr>"
  shows "generate_complete_path geod a b h a b e = ([a, a, a, a], [b, b, b, b])"
proof -
  note seg = coincident_segment [OF assms]
  have p1: "phase_1 geod a b h a b e = ([a, a], [b, b])"
    by (simp add: phase_1_def seg)
  have p2: "phase_2 geod a b h a b e = ([a, a], [b, b])"
    by (simp add: phase_2_segment p1 seg)
  have jlat: "fst (end_of_phase_2 geod a b h a b e) = a"
    unfolding end_of_phase_2_lat p2 by simp
  have jlon: "snd (end_of_phase_2 geod a b h a b e) = b"
    unfolding end_of_phase_2_lon p2 by simp
  have q1: "phase_1_recalculated geod a b h a b e = ([a, a], [b, b])"
    by (simp add: phase_1_recalculated_segment jlat jlon seg)
  have q2: "phase_2_recalculated geod a b h a b e = ([a, a], [b, b])"
    by (simp add: phase_2_recalculated_segment q1 seg)
  show ?thesis
    by (simp add: prod_eq_iff full_lats full_lons q1 q2)
qed

section \<open>The claims\<close>

text \<open>
  Claim C1. The path returned by \<^verbatim>\<open>generate_complete_path\<close> starts at A and ends
  at B: the first latitude and longitude are those of the start point, the last ones
  those of the end point. This holds for every input and every geodesic library, also
  when A and B coincide.
\<close>

theorem endpoint_fidelity:
  "hd (fst (generate_complete_path geod start_lat start_lon start_heading
              end_lat end_lon end_heading)) = start_lat
   \<and> hd (snd (generate_complete_path geod start_lat start_lon start_heading
                end_lat end_lon end_heading)) = start_lon
   \<and> last (fst (generate_complete_path geod start_lat start_lon start_heading
                  end_lat end_lon end_heading)) = end_lat
   \<and> last (snd (generate_complete_path geod start_lat start_lon start_heading
                  end_lat end_lon end_heading)) = end_lon"
  by (simp add: full_lats full_lons phase_1_recalculated_segment phase_2_recalculated_segment
        segment_lats_nonempty segment_lons_nonempty last_rev segment_lats_hd segment_lons_hd)

text \<open>
  Claim C2 fails on the code. Lines 53 and 54 compare the first point of the backward
  segment with the module constants \<open>LAT_B\<close> and \<open>LON_B\<close>, not with the end point
  of the invocation. With the end point at latitude 50 the latitude of the junction is
  that of the end point itself, whatever the library computes; along a meridian with
  start (49.996, 4.93) and end (50, 4.93) the junction is the end point, while the
  backward segment ends at (49.999, 4.93).
\<close>

theorem junction_is_end_point_itself:
  "fst (end_of_phase_2 geod (49996 / 1000) (493 / 100) 0 50 (493 / 100) 0) = 50
   \<and> end_of_phase_2 meridian (49996 / 1000) (493 / 100) 0 50 (493 / 100) 0 = (50, 493 / 100)
   \<and> phase_2 meridian (49996 / 1000) (493 / 100) 0 50 (493 / 100) 0
       = ([50, 49999 / 1000], [493 / 100, 493 / 100])"
proof -
  have "fst (end_of_phase_2 geod (49996 / 1000) (493 / 100) 0 50 (493 / 100) 0) = 50"
    by (simp add: end_of_phase_2_lat LAT_B_def)
  moreover have "end_of_phase_2 meridian (49996 / 1000) (493 / 100) 0 50 (493 / 100) 0
       = (50, 493 / 100)"
    by code_simp
  moreover have "phase_2 meridian (49996 / 1000) (493 / 100) 0 50 (493 / 100) 0
       = ([50, 49999 / 1000], [493 / 100, 493 / 100])"
    by code_simp
  ultimately show ?thesis by blast
qed

text \<open>
  Claim C3, as amended. The path has at least four points for every input, two for each
  of the stitched segments. When the end points coincide, the library reports distance
  zero between them and a step of length zero stays in place, the path is that point
  four times.
\<close>

theorem coincident_endpoints_four_points:
  "4 \<le> length (fst (generate_complete_path geod lat lon start_heading lat lon end_heading))
   \<and> 4 \<le> length (snd (generate_complete_path geod lat lon start_heading lat lon end_heading))
   \<and> (s12 (Inverse geod lat lon lat lon) = 0
        \<and> (\<forall>h. Direct geod lat lon h 0 = \<lparr>lat2 = lat, lon2 = lon\<rparr>)
      \<longrightarrow> generate_complete_path geod lat lon start_heading lat lon end_heading
            = ([lat, lat, lat, lat], [lon, lon, lon, lon]))"
  using four_points_lats [of geod lat lon start_heading lat lon end_heading]
        four_points_lons [of geod lat lon start_heading lat lon end_heading]
        coincident_path [of geod lat lon start_heading end_heading]
  by blast

text \<open>
  The amended claim C3 at the end point B of the script, along a meridian.
\<close>

theorem coincident_endpoints_four_points_witness:
  "s12 (Inverse meridian LAT_B LON_B LAT_B LON_B) = 0
   \<and> (\<forall>h. Direct meridian LAT_B LON_B h 0 = \<lparr>lat2 = LAT_B, lon2 = LON_B\<rparr>)
   \<and> generate_complete_path meridian LAT_B LON_B 90 LAT_B LON_B 90
       = ([LAT_B, LAT_B, LAT_B, LAT_B], [LON_B, LON_B, LON_B, LON_B])"
proof -
  have z: "s12 (Inverse meridian LAT_B LON_B LAT_B LON_B) = 0"
    by (simp add: meridian_simps meridian_Inverse_def)
  have s: "\<forall>h. Direct meridian LAT_B LON_B h 0 = \<lparr>lat2 = LAT_B, lon2 = LON_B\<rparr>"
    by (simp add: meridian_simps meridian_Direct_def Let_def)
  show ?thesis
    using coincident_endpoints_four_points [of meridian LAT_B LON_B 90 90] z s by blast
qed

text \<open>
  Claim C3 as stated fails: with A and B both at the script's point B, the path has four
  points, not one.
\<close>

theorem single_point_path_counterexample:
  "generate_complete_path meridian LAT_B LON_B 90 LAT_B LON_B 90
     = ([LAT_B, LAT_B, LAT_B, LAT_B], [LON_B, LON_B, LON_B, LON_B])
   \<and> length (fst (generate_complete_path meridian LAT_B LON_B 90 LAT_B LON_B 90)) \<noteq> 1"
  by code_simp

text \<open>
  Claim C4. In one iteration of the loop the running heading changes by at most
  \<open>MAX_TURN_RATE\<close> degrees in absolute value, whatever the state and the library.
\<close>

theorem turn_rate_bound:
  "\<bar>heading (step geod end_lat end_lon step_len s) - heading s\<bar> \<le> MAX_TURN_RATE"
  by (simp only: heading_step steer_bound)

text \<open>
  Claim C5, as amended. The full path is the corrected forward segment followed by the
  corrected backward segment reversed, the backward segment being grown from B towards
  the last point of the forward one. The last point of the forward segment and the last
  point of the backward segment are two consecutive entries of the path; nothing merges
  them.
\<close>

theorem stitched_path_structure:
  "fst (generate_complete_path geod start_lat start_lon start_heading end_lat end_lon end_heading)
     = fst (phase_1_recalculated geod start_lat start_lon start_heading end_lat end_lon end_heading)
       @ rev (fst (phase_2_recalculated geod start_lat start_lon start_heading
                     end_lat end_lon end_heading))
   \<and> snd (generate_complete_path geod start_lat start_lon start_heading end_lat end_lon end_heading)
     = snd (phase_1_recalculated geod start_lat start_lon start_heading end_lat end_lon end_heading)
       @ rev (snd (phase_2_recalculated geod start_lat start_lon start_heading
                     end_lat end_lon end_heading))
   \<and> phase_2_recalculated geod start_lat start_lon start_heading end_lat end_lon end_heading
     = calculate_path_segment geod end_lat end_lon (pymod (end_heading + 180) 360)
         (last (fst (phase_1_recalculated geod start_lat start_lon start_heading
                       end_lat end_lon end_heading)))
         (last (snd (phase_1_recalculated geod start_lat start_lon start_heading
                       end_lat end_lon end_heading)))
         end_heading
   \<and> fst (generate_complete_path geod start_lat start_lon start_heading end_lat end_lon end_heading)
       ! (length (fst (phase_1_recalculated geod start_lat start_lon start_heading
                         end_lat end_lon end_heading)) - 1)
     = last (fst (phase_1_recalculated geod start_lat start_lon start_heading
                    end_lat end_lon end_heading))
   \<and> fst (generate_complete_path geod start_lat start_lon start_heading end_lat end_lon end_heading)
       ! length (fst (phase_1_recalculated geod start_lat start_lon start_heading
                        end_lat end_lon end_heading))
     = last (fst (phase_2_recalculated geod start_lat start_lon start_heading
                    end_lat end_lon end_heading))"
proof -
  let ?p1 = "fst (phase_1_recalculated geod start_lat start_lon start_heading
                    end_lat end_lon end_heading)"
  let ?p2 = "fst (phase_2_recalculated geod start_lat start_lon start_heading
                    end_lat end_lon end_heading)"
  have ne1: "?p1 \<noteq> []" by (simp add: phase_1_recalculated_segment segment_lats_nonempty)
  have ne2: "?p2 \<noteq> []" by (simp add: phase_2_recalculated_segment segment_lats_nonempty)
  have a: "(?p1 @ rev ?p2) ! (length ?p1 - 1) = last ?p1"
    using ne1 by (simp add: nth_append last_conv_nth)
  have b: "(?p1 @ rev ?p2) ! length ?p1 = last ?p2"
    using ne2 by (simp add: nth_append hd_rev [symmetric] hd_conv_nth)
  show ?thesis
    using a b by (simp add: full_lats full_lons phase_2_recalculated_segment [symmetric])
qed

text \<open>
  Claim C5 as stated fails: from (50.016, 4.93) north to the script's point B along a
  meridian, the corrected forward segment ends at latitude 50.0175 and the reversed
  corrected backward segment begins at latitude 50.01875. Each segment covers half of
  the distance to its target, so the backward segment stops short of the forward one.
\<close>

theorem shared_junction_counterexample:
  "last (fst (phase_1_recalculated meridian (50016 / 1000) (493 / 100) 0 LAT_B LON_B 0))
     \<noteq> hd (rev (fst (phase_2_recalculated meridian (50016 / 1000) (493 / 100) 0 LAT_B LON_B 0)))"
  by code_simp

text \<open>
  Claim C6, as amended. The difference computed on line 27 lies in the interval closed at
  \<open>-180\<close> and open at \<open>180\<close>, and differs from target heading minus running heading
  by a whole multiple of 360.
\<close>

theorem heading_change_interval:
  "- 180 \<le> heading_change target_heading h \<and> heading_change target_heading h < 180
   \<and> (\<exists>k::int. heading_change target_heading h = (target_heading - h) + 360 * of_int k)"
  using heading_change_range heading_change_congruent by blast

text \<open>
  Claim C6 as stated fails: with the running heading at 0 (north) and the target due
  south at bearing 180, line 27 computes \<open>-180\<close>, outside the interval open at
  \<open>-180\<close>.
\<close>

theorem heading_change_interval_counterexample:
  "\<not> (- 180 < heading_change 180 0 \<and> heading_change 180 0 \<le> 180)"
  by (simp add: heading_change_def pymod_def)

text \<open>
  Claim C7. The loop of \<^verbatim>\<open>calculate_path_segment\<close> is a recursion on the number of
  iterations that remain, so every call returns; the segment has at most \<open>n + 1\<close>
  points, where \<open>n = max 1 \<lfloor>distance / POINT_INTERVAL_METERS\<rfloor>\<close> and the distance is the
  one the library reports between the start and the target of the segment.
\<close>

theorem segment_point_count_bound:
  "length (fst (calculate_path_segment geod start_lat start_lon start_heading
                  end_lat end_lon end_heading))
     \<le> nat (max 1 \<lfloor>s12 (Inverse geod start_lat start_lon end_lat end_lon)
                       / POINT_INTERVAL_METERS\<rfloor>) + 1
   \<and> length (snd (calculate_path_segment geod start_lat start_lon start_heading
                    end_lat end_lon end_heading))
     \<le> nat (max 1 \<lfloor>s12 (Inverse geod start_lat start_lon end_lat end_lon)
                       / POINT_INTERVAL_METERS\<rfloor>) + 1"
  using segment_lats_le [of geod start_lat start_lon start_heading end_lat end_lon end_heading]
        segment_lons_le [of geod start_lat start_lon start_heading end_lat end_lon end_heading]
  by (simp only: n_points_floor simp_thms)

text \<open>
  Claim C8, as amended. The point appended by an iteration is the result of
  \<^verbatim>\<open>geod.Direct\<close> at the running heading right after its update, with no reduction
  modulo 360: the previous running heading plus the clamped change, hence within
  \<open>MAX_TURN_RATE\<close> degrees of the previous running heading.
\<close>

theorem direct_heading_not_normalized:
  "lats (step geod end_lat end_lon step_len s) =
     lats s @ [lat2 (Direct geod (last (lats s)) (last (lons s))
                       (steer geod end_lat end_lon s) step_len)]
   \<and> lons (step geod end_lat end_lon step_len s) =
     lons s @ [lon2 (Direct geod (last (lats s)) (last (lons s))
                       (steer geod end_lat end_lon s) step_len)]
   \<and> steer geod end_lat end_lon s =
     heading s
     + min MAX_TURN_RATE
         \<bar>heading_change
            (azi1 (Inverse geod (last (lats s)) (last (lons s)) end_lat end_lon)) (heading s)\<bar>
       * sgn (heading_change
                (azi1 (Inverse geod (last (lats s)) (last (lons s)) end_lat end_lon)) (heading s))
   \<and> heading s - MAX_TURN_RATE \<le> steer geod end_lat end_lon s
   \<and> steer geod end_lat end_lon s \<le> heading s + MAX_TURN_RATE"
  using lats_step [of geod end_lat end_lon step_len s]
        lons_step [of geod end_lat end_lon step_len s]
        steer_unfold [of geod end_lat end_lon s]
        steer_within [of s geod end_lat end_lon]
  by blast

text \<open>
  Claim C8 as stated fails: at the script's point B with running heading 0 and the
  target due south, the heading handed to \<^verbatim>\<open>geod.Direct\<close> is \<open>-3\<close>, outside the
  interval from 0 to 360.
\<close>

theorem direct_heading_normalized_counterexample:
  "\<not> (0 \<le> steer meridian 50 (493 / 100)
              \<lparr>lats = [5002 / 100], lons = [493 / 100], heading = 0\<rparr>
      \<and> steer meridian 50 (493 / 100)
              \<lparr>lats = [5002 / 100], lons = [493 / 100], heading = 0\<rparr> < 360)"
  by code_simp

text \<open>
  Claim C9. Every segment returned by \<^verbatim>\<open>calculate_path_segment\<close> has at least two
  points in each of its two lists, the first of them the start point: the step count is
  at least 1 and the first iteration appends a point before the test of line 36.
\<close>

theorem segment_at_least_two_points:
  "2 \<le> length (fst (calculate_path_segment geod start_lat start_lon start_heading
                       end_lat end_lon end_heading))
   \<and> 2 \<le> length (snd (calculate_path_segment geod start_lat start_lon start_heading
                         end_lat end_lon end_heading))
   \<and> hd (fst (calculate_path_segment geod start_lat start_lon start_heading
                 end_lat end_lon end_heading)) = start_lat
   \<and> hd (snd (calculate_path_segment geod start_lat start_lon start_heading
                 end_lat end_lon end_heading)) = start_lon"
  by (simp only: segment_lats_ge_2 segment_lons_ge_2 segment_lats_hd segment_lons_hd simp_thms)

text \<open>
  Claim C10. The test of line 36 compares the numbers, not the angles: when the running
  heading after an iteration differs from \<open>end_heading\<close> by a whole multiple of 360
  other than zero, the test is false and the loop goes on to its next iteration.
\<close>

theorem raw_heading_test:
  assumes "heading (step geod end_lat end_lon step_len s) - end_heading = 360 * of_int k"
    and "k \<noteq> 0"
  shows "\<not> close_enough (heading (step geod end_lat end_lon step_len s)) end_heading
         \<and> path_loop geod end_lat end_lon end_heading step_len (Suc m) s =
             path_loop geod end_lat end_lon end_heading step_len m
               (step geod end_lat end_lon step_len s)"
proof -
  have "1 \<le> \<bar>k\<bar>" using assms(2) by simp
  then have "(1::real) \<le> \<bar>of_int k\<bar>" by (metis of_int_abs of_int_1_le_iff)
  then have "360 \<le> \<bar>360 * (of_int k :: real)\<bar>" by (simp add: abs_mult)
  then have "\<not> close_enough (heading (step geod end_lat end_lon step_len s)) end_heading"
    by (simp add: close_enough_def assms(1))
  then show ?thesis by (simp add: Let_def)
qed

text \<open>
  Claim C10 in the first iteration of the segment from (50, 4.93) with heading 359 to the
  script's point B with final heading 0, along a meridian: the running heading becomes
  360, the test fails, and the six iterations that remain are run.
\<close>

theorem raw_heading_test_witness:
  "heading (step meridian (5002 / 100) (493 / 100) (1112 / 7)
      \<lparr>lats = [50], lons = [493 / 100], heading = 359\<rparr>) - 0 = 360 * of_int 1
   \<and> (1::int) \<noteq> 0
   \<and> \<not> close_enough (heading (step meridian (5002 / 100) (493 / 100) (1112 / 7)
          \<lparr>lats = [50], lons = [493 / 100], heading = 359\<rparr>)) 0
   \<and> path_loop meridian (5002 / 100) (493 / 100) 0 (1112 / 7) (Suc 6)
        \<lparr>lats = [50], lons = [493 / 100], heading = 359\<rparr> =
      path_loop meridian (5002 / 100) (493 / 100) 0 (1112 / 7) 6
        (step meridian (5002 / 100) (493 / 100) (1112 / 7)
           \<lparr>lats = [50], lons = [493 / 100], heading = 359\<rparr>)"
proof -
  have h: "heading (step meridian (5002 / 100) (493 / 100) (1112 / 7)
      \<lparr>lats = [50], lons = [493 / 100], heading = 359\<rparr>) - 0 = 360 * of_int 1"
    by (simp add: heading_step steer_def meridian_simps meridian_Inverse_def heading_change_def
          pymod_def MAX_TURN_RATE_def)
  have k: "(1::int) \<noteq> 0" by simp
  show ?thesis using raw_heading_test [OF h k, of 6] h k by blast
qed

end
